theory Spec2Isabelle
  imports Main
begin

section \<open>collex: Collector exporters behind the OpenTelemetry-Go span exporter contract\<close>

text \<open>
  The repository consists of the package \<open>collex\<close> (\<open>trace.go\<close> with the function
  \<open>TracesExporter\<close>, and the factory file with \<open>NewFactory\<close> and
  \<open>Factory.SpanExporter\<close>) and of a demo (\<open>clickhouse-demo\<close>) with two exporters,
  \<open>simulatedExporter\<close> and \<open>spanExporterAdapter\<close>.

  Go values are modelled as follows. A pointer or an interface value that may be \<open>nil\<close>
  is an \<open>option\<close> (\<open>None\<close> is \<open>nil\<close>). A Go result pair \<open>(T, error)\<close> produced by the
  code of this repository is a sum (\<open>Inl\<close> the failure); a pair handed back by a
  collaborator outside the repository stays a pair of options, since Go does not force
  one of the two to be \<open>nil\<close>. Standard output and the calls made on the Collector-side
  collaborators are effects, kept in an explicit world that every operation takes and
  returns.
\<close>

subsection \<open>Values shared by all operations\<close>

datatype Context = Background | Derived nat

text \<open>A non-nil value of Go's \<open>error\<close> interface, identified by its message.\<close>

datatype error = Error string

text \<open>
  How a call of this repository's code can fail: it returns an error value, or it panics
  on a method call through a nil interface value.
\<close>

datatype failure = Returned error | Nil_dereference

type_synonym addr = nat

datatype zap_Logger = Logger_ref nat

datatype trace_TracerProvider = TracerProvider_ref nat

text \<open>
  \<open>component.BuildInfo\<close>, \<open>component.TelemetrySettings\<close> and
  \<open>component.ExporterCreateSettings\<close>, with the fields that \<open>NewFactory\<close> names.
\<close>

record BuildInfo =
  Command :: string
  Description :: string
  Version :: string

record TelemetrySettings =
  Logger :: "zap_Logger option"
  TracerProvider :: "trace_TracerProvider option"

record ExporterCreateSettings =
  TelemetrySettings :: TelemetrySettings
  BuildInfo :: BuildInfo

text \<open>
  The log of calls made on Collector-side collaborators: the exporter factory
  (\<open>CreateDefaultConfig\<close>, \<open>CreateTracesExporter\<close>) and the traces consumer it builds
  (\<open>ConsumeTraces\<close>, \<open>Shutdown\<close>), each with the arguments of the call.
\<close>

datatype ('cfg, 'td) call =
    CreateDefaultConfig_call
  | CreateTracesExporter_call Context ExporterCreateSettings "'cfg option"
  | ConsumeTraces_call Context 'td
  | Shutdown_call Context

text \<open>
  The world: what was written to standard output, the calls made on collaborators, and
  the memory holding the settings structs that a \<open>*component.ExporterCreateSettings\<close>
  can point to (a Go pointer that is not nil always points to a live struct, so the
  memory is total).
\<close>

record ('cfg, 'td) world =
  stdout :: string
  calls :: "('cfg, 'td) call list"
  heap :: "addr \<Rightarrow> ExporterCreateSettings"

text \<open>
  The Collector interfaces \<open>consumer.Traces\<close> and \<open>component.TracesExporter\<close> (which
  embeds the former): what each method answers, as a parameter.
\<close>

record 'td consumer_Traces =
  ConsumeTraces :: "Context \<Rightarrow> 'td \<Rightarrow> error option"

record 'td component_TracesExporter = "'td consumer_Traces" +
  Shutdown :: "Context \<Rightarrow> error option"

subsection \<open>Formatting of \<open>%d\<close>\<close>

definition digit_char :: "nat \<Rightarrow> char" where
  "digit_char d = ''0123456789'' ! (d mod 10)"

fun decimal :: "nat \<Rightarrow> string" where
  "decimal n = (if n < 10 then [digit_char n] else decimal (n div 10) @ [digit_char (n mod 10)])"

declare decimal.simps [simp del]

subsection \<open>\<open>trace.go\<close>\<close>

text \<open>
  The struct \<open>spanExporter\<close> is the one that \<open>Factory.SpanExporter\<close> builds with the
  composite literal \<open>&spanExporter{cexp: collExp}\<close>; its one field is taken from there.
\<close>

record 'td spanExporter =
  cexp :: "'td component_TracesExporter option"

text \<open>
  \<open>func TracesExporter(e component.TracesExporter) trace.SpanExporter { return nil }\<close>
\<close>

definition TracesExporter :: "'td component_TracesExporter option \<Rightarrow> 'td spanExporter option" where
  "TracesExporter e = None"

subsection \<open>The factory\<close>

text \<open>
  The Collector interface \<open>component.ExporterFactory\<close>: what its two methods answer, as
  a parameter. \<open>CreateTracesExporter\<close> answers with a Go pair \<open>(exporter, error)\<close>.
\<close>

record ('cfg, 'td) component_ExporterFactory =
  CreateDefaultConfig :: "'cfg option"
  CreateTracesExporter ::
    "Context \<Rightarrow> ExporterCreateSettings \<Rightarrow> 'cfg option
       \<Rightarrow> 'td component_TracesExporter option \<times> error option"

text \<open>\<open>type Factory struct { createCfg; collFactory }\<close>: the settings are held by value.\<close>

record ('cfg, 'td) Factory =
  createCfg :: ExporterCreateSettings
  collFactory :: "('cfg, 'td) component_ExporterFactory option"

text \<open>
  What the two library calls of \<open>NewFactory\<close> answer: \<open>zap.NewProduction()\<close>, a Go pair
  \<open>(logger, error)\<close>, and \<open>otel.GetTracerProvider()\<close>.
\<close>

record environment =
  zap_NewProduction :: "zap_Logger option \<times> error option"
  otel_GetTracerProvider :: "trace_TracerProvider option"

text \<open>
  \<open>NewFactory(f, set)\<close>; the pointer \<open>set\<close> is \<open>set_ptr\<close> here. With \<open>set == nil\<close> the
  logger is built first and its error, if any, is returned with a nil Factory; otherwise
  the default settings are made. In both cases the Factory receives \<open>*set\<close>, the struct
  read through the pointer at this moment.
\<close>

definition NewFactory ::
  "environment \<Rightarrow> ('cfg, 'td) component_ExporterFactory option \<Rightarrow> addr option
     \<Rightarrow> ('cfg, 'td) world \<Rightarrow> failure + ('cfg, 'td) Factory" where
  "NewFactory env f set_ptr w =
     (case set_ptr of
        None \<Rightarrow>
          (case zap_NewProduction env of
             (logger, Some err) \<Rightarrow> Inl (Returned err)
           | (logger, None) \<Rightarrow>
               Inr \<lparr>createCfg =
                      \<lparr>TelemetrySettings =
                         \<lparr>Logger = logger, TracerProvider = otel_GetTracerProvider env\<rparr>,
                       BuildInfo =
                         \<lparr>Command = ''collex'',
                          Description = ''OpenTelemetry Collector to OpenTelemetry Go translator'',
                          Version = ''latest''\<rparr>\<rparr>,
                    collFactory = f\<rparr>)
      | Some p \<Rightarrow> Inr \<lparr>createCfg = heap w p, collFactory = f\<rparr>)"

text \<open>
  \<open>Factory.SpanExporter(ctx, cfg)\<close> on the Factory that \<open>NewFactory\<close> returned. A method
  call on a nil \<open>collFactory\<close> panics. Each call made on the collector factory is logged
  with its arguments.
\<close>

definition SpanExporter ::
  "('cfg, 'td) Factory \<Rightarrow> Context \<Rightarrow> 'cfg option \<Rightarrow> ('cfg, 'td) world
     \<Rightarrow> (failure + 'td spanExporter) \<times> ('cfg, 'td) world" where
  "SpanExporter f ctx cfg w =
     (case collFactory f of
        None \<Rightarrow> (Inl Nil_dereference, w)
      | Some cf \<Rightarrow>
          (let (cfg', w1) =
                 (case cfg of
                    None \<Rightarrow> (CreateDefaultConfig cf,
                             w\<lparr>calls := calls w @ [CreateDefaultConfig_call]\<rparr>)
                  | Some c \<Rightarrow> (cfg, w));
               (collExp, err) = CreateTracesExporter cf ctx (createCfg f) cfg';
               w2 = w1\<lparr>calls := calls w1 @ [CreateTracesExporter_call ctx (createCfg f) cfg']\<rparr>
           in case err of
                Some e \<Rightarrow> (Inl (Returned e), w2)
              | None \<Rightarrow> (Inr \<lparr>spanExporter.cexp = collExp\<rparr>, w2)))"

text \<open>
  The construction sequence that the demo's comments give
  (\<open>collexFactory, err := collex.NewFactory(chFactory, nil)\<close>, stop on \<open>err\<close>, then
  \<open>collexFactory.SpanExporter(ctx, config)\<close>), which the specification calls
  \<open>newAdapter\<close>.
\<close>

definition newAdapter ::
  "environment \<Rightarrow> ('cfg, 'td) component_ExporterFactory option \<Rightarrow> addr option
     \<Rightarrow> Context \<Rightarrow> 'cfg option \<Rightarrow> ('cfg, 'td) world
     \<Rightarrow> (failure + 'td spanExporter) \<times> ('cfg, 'td) world" where
  "newAdapter env f set_ptr ctx cfg w =
     (case NewFactory env f set_ptr w of
        Inl e \<Rightarrow> (Inl e, w)
      | Inr fac \<Rightarrow> SpanExporter fac ctx cfg w)"

text \<open>Reading the log: the settings and the configurations given to \<open>CreateTracesExporter\<close>.\<close>

fun created_with :: "('cfg, 'td) call list \<Rightarrow> (ExporterCreateSettings \<times> 'cfg option) list" where
  "created_with [] = []"
| "created_with (CreateTracesExporter_call ctx s c # cs) = (s, c) # created_with cs"
| "created_with (_ # cs) = created_with cs"

subsection \<open>The demo's exporters\<close>

text \<open>
  \<open>simulatedExporter\<close> (\<open>cmd/main.go\<close>, \<open>internal/examples.go\<close>) holds a pointer to the
  ClickHouse configuration; \<open>spanExporterAdapter\<close> (\<open>internal/examples.go\<close>) holds a
  \<open>consumer.Traces\<close>.
\<close>

record 'chcfg simulatedExporter =
  config :: "'chcfg option"

record 'td spanExporterAdapter =
  cexp :: "'td consumer_Traces option"

text \<open>
  \<open>spanExporterAdapter.ExportSpans\<close>: one \<open>fmt.Printf\<close> of the batch length, then
  \<open>return nil\<close>. The field \<open>cexp\<close> is not read.
\<close>

definition spanExporterAdapter_ExportSpans ::
  "'td spanExporterAdapter \<Rightarrow> Context \<Rightarrow> 'span list \<Rightarrow> ('cfg, 'td) world
     \<Rightarrow> error option \<times> ('cfg, 'td) world" where
  "spanExporterAdapter_ExportSpans e ctx spans w =
     (None, w\<lparr>stdout := stdout w @ ''Exporting '' @ decimal (length spans)
                          @ '' spans to ClickHouse\<newline>''\<rparr>)"

text \<open>\<open>spanExporterAdapter.Shutdown\<close>: \<open>return nil\<close>.\<close>

definition spanExporterAdapter_Shutdown ::
  "'td spanExporterAdapter \<Rightarrow> Context \<Rightarrow> ('cfg, 'td) world \<Rightarrow> error option \<times> ('cfg, 'td) world" where
  "spanExporterAdapter_Shutdown e ctx w = (None, w)"

text \<open>\<open>simulatedExporter.Shutdown\<close>: one \<open>fmt.Println\<close>, then \<open>return nil\<close>.\<close>

definition simulatedExporter_Shutdown ::
  "'chcfg simulatedExporter \<Rightarrow> Context \<Rightarrow> ('cfg, 'td) world \<Rightarrow> error option \<times> ('cfg, 'td) world" where
  "simulatedExporter_Shutdown e ctx w =
     (None, w\<lparr>stdout := stdout w @ ''Shutting down ClickHouse exporter\<newline>''\<rparr>)"

text \<open>Reading the log: the ingest calls and the shutdown calls made on a consumer.\<close>

fun is_ConsumeTraces_call :: "('cfg, 'td) call \<Rightarrow> bool" where
  "is_ConsumeTraces_call (ConsumeTraces_call ctx td) = True"
| "is_ConsumeTraces_call _ = False"

fun is_Shutdown_call :: "('cfg, 'td) call \<Rightarrow> bool" where
  "is_Shutdown_call (Shutdown_call ctx) = True"
| "is_Shutdown_call _ = False"

subsection \<open>The span translator\<close>

text \<open>
  Modelled from the spec: the translation of a span batch into the Collector's traces
  representation (the function \<open>transmute.Spans\<close> that the comment in
  \<open>spanExporterAdapter.ExportSpans\<close> names) is not among the source files, where
  \<open>TracesExporter\<close> is a stub. The data model follows section 3 of the specification. A
  span of the SDK refers to its Resource, an object of the process (here an address into
  a memory of resource values), and carries its instrumentation scope (name, version) by
  value; \<open>SpanData\<close> stands for everything else in the span (identifiers, name, kind,
  timestamps, status, attributes, events, links, dropped counts), which the translation
  hands over as it is.
\<close>

record Scope =
  scope_name :: string
  scope_version :: string

record 'd Span =
  ResourceRef :: addr
  InstrumentationScope :: Scope
  SpanData :: 'd

text \<open>
  Modelled from the spec: a \<open>TraceRecord\<close> is grouped as Resource, then ScopeSpans, then
  Span.
\<close>

type_synonym ('r, 'd) TraceRecord = "('r \<times> (Scope \<times> 'd list) list) list"

definition resource_of :: "(addr \<Rightarrow> 'r) \<Rightarrow> 'd Span \<Rightarrow> 'r" where
  "resource_of mem sp = mem (ResourceRef sp)"

text \<open>
  Modelled from the spec (4.1, grouping algorithm): a stable partition by the value of a
  key. The group of the first element comes first and holds, in their order, all elements
  with an equal key; the remaining elements are grouped in the same way.
\<close>

fun group_by :: "('a \<Rightarrow> 'k) \<Rightarrow> 'a list \<Rightarrow> ('k \<times> 'a list) list" where
  "group_by key [] = []"
| "group_by key (x # xs) =
     (key x, x # filter (\<lambda>y. key y = key x) xs) # group_by key (filter (\<lambda>y. key y \<noteq> key x) xs)"

text \<open>
  Modelled from the spec (4.1): \<open>translate\<close> partitions the batch by the value of the
  Resource, then each Resource group by the value of the instrumentation scope.
\<close>

definition translate :: "(addr \<Rightarrow> 'r) \<Rightarrow> 'd Span list \<Rightarrow> ('r, 'd) TraceRecord" where
  "translate mem batch =
     map (\<lambda>(r, g). (r, map (\<lambda>(s, g'). (s, map SpanData g')) (group_by InstrumentationScope g)))
         (group_by (resource_of mem) batch)"

text \<open>
  Notions used to state the properties of the translation: the distinct elements of a
  list in the order of their first occurrence, the number of spans in a \<open>TraceRecord\<close>,
  and a span of the SDK read by value, its Resource looked up in the memory.
\<close>

definition first_occurrences :: "'k list \<Rightarrow> 'k list" where
  "first_occurrences ks = rev (remdups (rev ks))"

definition span_count :: "('r, 'd) TraceRecord \<Rightarrow> nat" where
  "span_count tr = sum_list (map (\<lambda>(r, gs). sum_list (map (\<lambda>(s, ds). length ds) gs)) tr)"

definition span_value :: "(addr \<Rightarrow> 'r) \<Rightarrow> 'd Span \<Rightarrow> 'r \<times> Scope \<times> 'd" where
  "span_value mem sp = (resource_of mem sp, InstrumentationScope sp, SpanData sp)"

subsection \<open>Concrete collaborators\<close>

text \<open>
  Collaborators and worlds on which the operations are run below: a consumer that accepts
  every batch and one that refuses every batch, a collector factory that builds an
  exporter and one that rejects its configuration, an environment in which
  \<open>zap.NewProduction\<close> succeeds and one in which it fails. Traces are lists of span
  names here, configurations are endpoint strings.
\<close>

definition accepting_exporter :: "string list component_TracesExporter" where
  "accepting_exporter = \<lparr>ConsumeTraces = (\<lambda>ctx td. None), Shutdown = (\<lambda>ctx. None)\<rparr>"

definition accepting_consumer :: "string list consumer_Traces" where
  "accepting_consumer = \<lparr>ConsumeTraces = (\<lambda>ctx td. None)\<rparr>"

definition refusing_consumer :: "string list consumer_Traces" where
  "refusing_consumer = \<lparr>ConsumeTraces = (\<lambda>ctx td. Some (Error ''ingest failed''))\<rparr>"

definition zero_settings :: ExporterCreateSettings where
  "zero_settings =
     \<lparr>TelemetrySettings = \<lparr>Logger = None, TracerProvider = None\<rparr>,
      BuildInfo = \<lparr>Command = [], Description = [], Version = []\<rparr>\<rparr>"

definition demo_settings :: ExporterCreateSettings where
  "demo_settings =
     \<lparr>TelemetrySettings = \<lparr>Logger = Some (Logger_ref 1), TracerProvider = None\<rparr>,
      BuildInfo = \<lparr>Command = ''collex-demo'', Description = ''ClickHouse exporter demo'',
                   Version = ''latest''\<rparr>\<rparr>"

definition empty_world :: "(string, string list) world" where
  "empty_world = \<lparr>stdout = [], calls = [], heap = (\<lambda>a. zero_settings)\<rparr>"

definition working_factory :: "(string, string list) component_ExporterFactory" where
  "working_factory =
     \<lparr>CreateDefaultConfig = Some ''tcp://localhost:9000'',
      CreateTracesExporter = (\<lambda>ctx s c. (Some accepting_exporter, None))\<rparr>"

definition failing_factory :: "(string, string list) component_ExporterFactory" where
  "failing_factory =
     \<lparr>CreateDefaultConfig = Some ''tcp://localhost:9000'',
      CreateTracesExporter = (\<lambda>ctx s c. (None, Some (Error ''invalid configuration'')))\<rparr>"

definition working_env :: environment where
  "working_env =
     \<lparr>zap_NewProduction = (Some (Logger_ref 0), None),
      otel_GetTracerProvider = Some (TracerProvider_ref 0)\<rparr>"

definition failing_env :: environment where
  "failing_env =
     \<lparr>zap_NewProduction = (None, Some (Error ''cannot build logger'')),
      otel_GetTracerProvider = Some (TracerProvider_ref 0)\<rparr>"

text \<open>
  The scenario of the specification's section 8: three spans, two under Resource A and
  scope X, one under Resource B and scope Y. In the first run the two spans of Resource A
  refer to two distinct objects with equal value; in the second run the same batch lives
  at other addresses.
\<close>

definition scope_X :: Scope where
  "scope_X = \<lparr>scope_name = ''X'', scope_version = ''1.0''\<rparr>"

definition scope_Y :: Scope where
  "scope_Y = \<lparr>scope_name = ''Y'', scope_version = ''1.0''\<rparr>"

definition run1_memory :: "addr \<Rightarrow> string" where
  "run1_memory a = (if a = 10 \<or> a = 11 then ''A'' else ''B'')"

definition run1_batch :: "string Span list" where
  "run1_batch =
     [\<lparr>ResourceRef = 10, InstrumentationScope = scope_X, SpanData = ''span-1''\<rparr>,
      \<lparr>ResourceRef = 11, InstrumentationScope = scope_X, SpanData = ''span-2''\<rparr>,
      \<lparr>ResourceRef = 12, InstrumentationScope = scope_Y, SpanData = ''span-3''\<rparr>]"

definition run2_memory :: "addr \<Rightarrow> string" where
  "run2_memory a = (if a = 7 then ''A'' else ''B'')"

definition run2_batch :: "string Span list" where
  "run2_batch =
     [\<lparr>ResourceRef = 7, InstrumentationScope = scope_X, SpanData = ''span-1''\<rparr>,
      \<lparr>ResourceRef = 7, InstrumentationScope = scope_X, SpanData = ''span-2''\<rparr>,
      \<lparr>ResourceRef = 8, InstrumentationScope = scope_Y, SpanData = ''span-3''\<rparr>]"

section \<open>Properties\<close>

subsection \<open>The adapter and the factory\<close>

text \<open>The settings handed to \<open>CreateTracesExporter\<close>, read from the log.\<close>

lemma created_with_append:
  "created_with (xs @ ys) = created_with xs @ created_with ys"
  by (induction xs rule: created_with.induct) simp_all

text \<open>The settings that one \<open>SpanExporter\<close> call adds to the log.\<close>

lemma SpanExporter_created_with:
  "collFactory f = Some cf \<Longrightarrow>
     map fst (created_with (calls (snd (SpanExporter f ctx cfg w))))
       = map fst (created_with (calls w)) @ [createCfg f]"
  by (simp add: SpanExporter_def Let_def created_with_append split: prod.splits option.splits)

text \<open>
  C1, as claimed: \<open>spanExporterAdapter.ExportSpans\<close> translates the batch and invokes the
  wrapped consumer's \<open>ConsumeTraces\<close>. On the code this fails: exporting a batch of two
  spans through an adapter that wraps an accepting consumer returns nil, writes the line
  \<open>Exporting 2 spans to ClickHouse\<close>, and the log of calls holds no \<open>ConsumeTraces\<close>.
\<close>

theorem ExportSpans_forwards_counterexample:
  "fst (spanExporterAdapter_ExportSpans \<lparr>cexp = Some accepting_consumer\<rparr> Background
          [''parent'', ''child''] empty_world) = None
   \<and> \<not> list_ex is_ConsumeTraces_call
         (calls (snd (spanExporterAdapter_ExportSpans \<lparr>cexp = Some accepting_consumer\<rparr> Background
                        [''parent'', ''child''] empty_world)))
   \<and> stdout (snd (spanExporterAdapter_ExportSpans \<lparr>cexp = Some accepting_consumer\<rparr> Background
                     [''parent'', ''child''] empty_world))
       = ''Exporting 2 spans to ClickHouse\<newline>''"
  by (simp add: spanExporterAdapter_ExportSpans_def empty_world_def decimal.simps digit_char_def)

text \<open>
  C1, amended: for every adapter, context, span batch and world,
  \<open>spanExporterAdapter.ExportSpans\<close> returns nil, makes no call on any collaborator (so
  neither translates for nor invokes the wrapped consumer), leaves the settings memory as
  it is, and writes exactly one line to standard output,
  \<open>Exporting <n> spans to ClickHouse\<close> with \<open>n\<close> the length of the batch in decimal.
\<close>

theorem ExportSpans_only_logs:
  "fst (spanExporterAdapter_ExportSpans e ctx spans w) = None
   \<and> calls (snd (spanExporterAdapter_ExportSpans e ctx spans w)) = calls w
   \<and> heap (snd (spanExporterAdapter_ExportSpans e ctx spans w)) = heap w
   \<and> stdout (snd (spanExporterAdapter_ExportSpans e ctx spans w))
       = stdout w @ ''Exporting '' @ decimal (length spans) @ '' spans to ClickHouse\<newline>''"
  by (simp add: spanExporterAdapter_ExportSpans_def)

text \<open>
  C2, as claimed: an error returned by the consumer's \<open>ConsumeTraces\<close> is what
  \<open>ExportSpans\<close> returns. On the code this fails: the refusing consumer answers every
  ingest with the error \<open>ingest failed\<close>, and \<open>ExportSpans\<close> on an adapter wrapping it
  does not return that error.
\<close>

theorem ExportSpans_passthrough_counterexample:
  "ConsumeTraces refusing_consumer Background [''parent'', ''child''] = Some (Error ''ingest failed'')
   \<and> fst (spanExporterAdapter_ExportSpans \<lparr>cexp = Some refusing_consumer\<rparr> Background
            [''parent'', ''child''] empty_world) \<noteq> Some (Error ''ingest failed'')"
  by (simp add: spanExporterAdapter_ExportSpans_def refusing_consumer_def)

text \<open>
  C2, amended: for every span batch and every error value \<open>err\<close>, if the wrapped
  consumer's \<open>ConsumeTraces\<close> answers \<open>err\<close> (for any context and traces),
  \<open>spanExporterAdapter.ExportSpans\<close> still returns nil and makes no call on the consumer:
  the consumer's error does not reach the caller.
\<close>

theorem ExportSpans_ignores_consumer_error:
  "ConsumeTraces c ctx' td = Some err \<Longrightarrow>
     fst (spanExporterAdapter_ExportSpans \<lparr>cexp = Some c\<rparr> ctx spans w) = None
     \<and> calls (snd (spanExporterAdapter_ExportSpans \<lparr>cexp = Some c\<rparr> ctx spans w)) = calls w"
  by (simp add: spanExporterAdapter_ExportSpans_def)

text \<open>The amended C2 on the refusing consumer.\<close>

theorem ExportSpans_ignores_consumer_error_witness:
  "ConsumeTraces refusing_consumer (Derived 1) [''parent''] = Some (Error ''ingest failed'')
   \<and> fst (spanExporterAdapter_ExportSpans \<lparr>cexp = Some refusing_consumer\<rparr> (Derived 1)
            [''parent''] empty_world) = None
   \<and> calls (snd (spanExporterAdapter_ExportSpans \<lparr>cexp = Some refusing_consumer\<rparr> (Derived 1)
                   [''parent''] empty_world)) = []"
proof -
  have h: "ConsumeTraces refusing_consumer (Derived 1) [''parent''] = Some (Error ''ingest failed'')"
    by (simp add: refusing_consumer_def)
  show ?thesis
    using h ExportSpans_ignores_consumer_error [OF h, of "Derived 1" "[''parent'']" empty_world]
    by (simp add: empty_world_def)
qed

text \<open>
  C3, as claimed: after a successful shutdown every export returns an "adapter closed"
  error. On the code this fails: \<open>Shutdown\<close> returns nil, and the export that follows it
  on the same adapter returns nil as well, not an error.
\<close>

theorem export_after_shutdown_counterexample:
  "fst (spanExporterAdapter_Shutdown \<lparr>cexp = Some accepting_consumer\<rparr> Background empty_world) = None
   \<and> fst (spanExporterAdapter_ExportSpans \<lparr>cexp = Some accepting_consumer\<rparr> Background [''late'']
            (snd (spanExporterAdapter_Shutdown \<lparr>cexp = Some accepting_consumer\<rparr> Background
                    empty_world))) = None"
  by (simp add: spanExporterAdapter_ExportSpans_def spanExporterAdapter_Shutdown_def)

text \<open>
  C3, amended: for every adapter on which \<open>Shutdown\<close> has returned nil, a subsequent
  \<open>ExportSpans\<close> returns nil (the adapter has no closed state and no "adapter closed"
  error) and does not invoke the wrapped consumer's ingest operation: the log of calls is
  the one from before the shutdown.
\<close>

theorem export_after_shutdown_returns_nil:
  "fst (spanExporterAdapter_Shutdown e ctx w) = None \<Longrightarrow>
     fst (spanExporterAdapter_ExportSpans e ctx' spans (snd (spanExporterAdapter_Shutdown e ctx w))) = None
     \<and> calls (snd (spanExporterAdapter_ExportSpans e ctx' spans
                     (snd (spanExporterAdapter_Shutdown e ctx w)))) = calls w"
  by (simp add: spanExporterAdapter_ExportSpans_def spanExporterAdapter_Shutdown_def)

text \<open>The amended C3 on an adapter wrapping the refusing consumer.\<close>

theorem export_after_shutdown_returns_nil_witness:
  "fst (spanExporterAdapter_Shutdown \<lparr>cexp = Some refusing_consumer\<rparr> Background empty_world) = None
   \<and> fst (spanExporterAdapter_ExportSpans \<lparr>cexp = Some refusing_consumer\<rparr> (Derived 2) [''late'']
            (snd (spanExporterAdapter_Shutdown \<lparr>cexp = Some refusing_consumer\<rparr> Background
                    empty_world))) = None
   \<and> calls (snd (spanExporterAdapter_ExportSpans \<lparr>cexp = Some refusing_consumer\<rparr> (Derived 2) [''late'']
            (snd (spanExporterAdapter_Shutdown \<lparr>cexp = Some refusing_consumer\<rparr> Background
                    empty_world)))) = []"
proof -
  have h: "fst (spanExporterAdapter_Shutdown \<lparr>cexp = Some refusing_consumer\<rparr> Background empty_world) = None"
    by (simp add: spanExporterAdapter_Shutdown_def)
  show ?thesis
    using h export_after_shutdown_returns_nil [OF h, of "Derived 2" "[''late'']"]
    by (simp add: empty_world_def)
qed

text \<open>
  C4, as claimed: construction fails only when \<open>CreateTracesExporter\<close> returns an error.
  On the code this fails: with a nil settings pointer and a \<open>zap.NewProduction\<close> that
  returns an error, \<open>NewFactory\<close> returns that error, although the collector factory
  would have built an exporter without error and is in fact never called.
\<close>

theorem newAdapter_counterexample:
  "fst (newAdapter failing_env (Some working_factory) None Background (Some ''tcp://ch:9000'')
          empty_world) = Inl (Returned (Error ''cannot build logger''))
   \<and> calls (snd (newAdapter failing_env (Some working_factory) None Background
                   (Some ''tcp://ch:9000'') empty_world)) = []
   \<and> snd (CreateTracesExporter working_factory Background demo_settings (Some ''tcp://ch:9000''))
       = None"
  by (simp add: newAdapter_def NewFactory_def failing_env_def empty_world_def working_factory_def)

text \<open>
  What \<open>SpanExporter\<close> returns, in terms of the one \<open>CreateTracesExporter\<close> call that it
  logs.
\<close>

lemma SpanExporter_result:
  "collFactory f = Some cf \<Longrightarrow>
     \<exists>c. created_with (calls (snd (SpanExporter f ctx cfg w)))
            = created_with (calls w) @ [(createCfg f, c)]
         \<and> fst (SpanExporter f ctx cfg w)
            = (case snd (CreateTracesExporter cf ctx (createCfg f) c) of
                 Some e \<Rightarrow> Inl (Returned e)
               | None \<Rightarrow> Inr \<lparr>spanExporter.cexp = fst (CreateTracesExporter cf ctx (createCfg f) c)\<rparr>)"
  by (cases cfg; cases "CreateTracesExporter cf ctx (createCfg f) cfg";
      cases "CreateTracesExporter cf ctx (createCfg f) (CreateDefaultConfig cf)")
     (auto simp: SpanExporter_def Let_def created_with_append split: option.splits)

text \<open>
  C4, amended: for a non-nil collector factory, \<open>NewFactory\<close> followed by
  \<open>Factory.SpanExporter\<close> fails only by returning an error \<open>e\<close> unchanged, where either
  the settings pointer is nil and \<open>e\<close> is the error of \<open>zap.NewProduction\<close> (and the
  collector factory is not called), or \<open>e\<close> is the error that the logged
  \<open>CreateTracesExporter\<close> call returned. Conversely each of the two errors makes the
  construction fail with exactly that error; a failure carries no exporter.
\<close>

theorem newAdapter_failure_causes:
  "(\<forall>x. fst (newAdapter env (Some cf) set_ptr ctx cfg w) = Inl x \<longrightarrow>
        (\<exists>e. x = Returned e \<and>
           ((set_ptr = None \<and> snd (zap_NewProduction env) = Some e
               \<and> calls (snd (newAdapter env (Some cf) set_ptr ctx cfg w)) = calls w)
            \<or> (\<exists>s c. created_with (calls (snd (newAdapter env (Some cf) set_ptr ctx cfg w)))
                        = created_with (calls w) @ [(s, c)]
                     \<and> snd (CreateTracesExporter cf ctx s c) = Some e))))
   \<and> (\<forall>e. set_ptr = None \<and> snd (zap_NewProduction env) = Some e \<longrightarrow>
          fst (newAdapter env (Some cf) set_ptr ctx cfg w) = Inl (Returned e))
   \<and> (\<forall>s c e. created_with (calls (snd (newAdapter env (Some cf) set_ptr ctx cfg w)))
                  = created_with (calls w) @ [(s, c)]
               \<and> snd (CreateTracesExporter cf ctx s c) = Some e \<longrightarrow>
          fst (newAdapter env (Some cf) set_ptr ctx cfg w) = Inl (Returned e))"
proof (cases "NewFactory env (Some cf) set_ptr w")
  case (Inl a)
  then obtain e where e: "set_ptr = None" "snd (zap_NewProduction env) = Some e" "a = Returned e"
    by (auto simp: NewFactory_def split: option.splits prod.splits)
  with Inl show ?thesis
    by (simp add: newAdapter_def)
next
  case (Inr fac)
  then have cf: "collFactory fac = Some cf"
    and nz: "set_ptr = None \<longrightarrow> snd (zap_NewProduction env) = None"
    by (auto simp: NewFactory_def split: option.splits prod.splits)
  have eq: "newAdapter env (Some cf) set_ptr ctx cfg w = SpanExporter fac ctx cfg w"
    using Inr by (simp add: newAdapter_def)
  from SpanExporter_result [OF cf, of ctx cfg w]
  obtain c where c: "created_with (calls (snd (SpanExporter fac ctx cfg w)))
                       = created_with (calls w) @ [(createCfg fac, c)]"
    and r: "fst (SpanExporter fac ctx cfg w)
            = (case snd (CreateTracesExporter cf ctx (createCfg fac) c) of
                 Some e \<Rightarrow> Inl (Returned e)
               | None \<Rightarrow> Inr \<lparr>spanExporter.cexp = fst (CreateTracesExporter cf ctx (createCfg fac) c)\<rparr>)"
    by blast
  show ?thesis
    unfolding eq using c r nz by (auto split: option.splits)
qed

text \<open>
  The amended C4 on a collector factory that rejects its configuration, with a working and
  with a failing \<open>zap.NewProduction\<close>.
\<close>

theorem newAdapter_failure_causes_witness:
  "fst (newAdapter working_env (Some failing_factory) None Background None empty_world)
     = Inl (Returned (Error ''invalid configuration''))
   \<and> fst (newAdapter failing_env (Some failing_factory) None Background None empty_world)
     = Inl (Returned (Error ''cannot build logger''))"
proof -
  let ?r = "newAdapter working_env (Some failing_factory) None Background None empty_world"
  let ?s = "\<lparr>TelemetrySettings =
                \<lparr>Logger = Some (Logger_ref 0), TracerProvider = Some (TracerProvider_ref 0)\<rparr>,
             BuildInfo =
                \<lparr>Command = ''collex'',
                 Description = ''OpenTelemetry Collector to OpenTelemetry Go translator'',
                 Version = ''latest''\<rparr>\<rparr>"
  have a: "created_with (calls (snd ?r))
             = created_with (calls empty_world) @ [(?s, Some ''tcp://localhost:9000'')]
           \<and> snd (CreateTracesExporter failing_factory Background ?s (Some ''tcp://localhost:9000''))
             = Some (Error ''invalid configuration'')"
    by (simp add: newAdapter_def NewFactory_def SpanExporter_def working_env_def
          failing_factory_def empty_world_def)
  have b: "(None :: addr option) = None
           \<and> snd (zap_NewProduction failing_env) = Some (Error ''cannot build logger'')"
    by (simp add: failing_env_def)
  show ?thesis
    using a b
      newAdapter_failure_causes [of working_env failing_factory None Background None empty_world]
      newAdapter_failure_causes [of failing_env failing_factory None Background None empty_world]
    by blast
qed

text \<open>
  C5. For every context, \<open>Factory.SpanExporter\<close> called with a nil configuration calls
  \<open>CreateDefaultConfig\<close> on the collector factory and then \<open>CreateTracesExporter\<close> with
  the context, the Factory's settings and, as configuration, exactly the value that
  \<open>CreateDefaultConfig\<close> returned.
\<close>

theorem SpanExporter_nil_config_uses_default:
  "collFactory f = Some cf \<Longrightarrow>
     calls (snd (SpanExporter f ctx None w))
       = calls w @ [CreateDefaultConfig_call,
                    CreateTracesExporter_call ctx (createCfg f) (CreateDefaultConfig cf)]"
  by (simp add: SpanExporter_def Let_def split: prod.splits option.splits)

text \<open>C5 on the working factory, whose default configuration is an endpoint string.\<close>

theorem SpanExporter_nil_config_uses_default_witness:
  "collFactory \<lparr>createCfg = demo_settings, collFactory = Some working_factory\<rparr> = Some working_factory
   \<and> calls (snd (SpanExporter \<lparr>createCfg = demo_settings, collFactory = Some working_factory\<rparr>
                   (Derived 7) None empty_world))
       = [CreateDefaultConfig_call,
          CreateTracesExporter_call (Derived 7) demo_settings (Some ''tcp://localhost:9000'')]"
proof -
  have h: "collFactory \<lparr>createCfg = demo_settings, collFactory = Some working_factory\<rparr> = Some working_factory"
    by simp
  show ?thesis
    using h SpanExporter_nil_config_uses_default [OF h, of "Derived 7" empty_world]
    by (simp add: empty_world_def working_factory_def)
qed

text \<open>
  C6. Shutdown is idempotent, for both exporters of the demo
  (\<open>spanExporterAdapter.Shutdown\<close> and \<open>simulatedExporter.Shutdown\<close>): after a shutdown
  that returned nil, a second shutdown on the same exporter returns nil again, and the log
  of calls on collaborators is still the one from before the first shutdown, so no
  shutdown is forwarded to a wrapped consumer, a second one in particular. Both
  operations are total functions of their arguments: there is no panic.
\<close>

theorem Shutdown_idempotent:
  "(fst (spanExporterAdapter_Shutdown a ctx1 w) = None \<longrightarrow>
      fst (spanExporterAdapter_Shutdown a ctx2 (snd (spanExporterAdapter_Shutdown a ctx1 w))) = None
      \<and> calls (snd (spanExporterAdapter_Shutdown a ctx2 (snd (spanExporterAdapter_Shutdown a ctx1 w))))
          = calls w)
   \<and> (fst (simulatedExporter_Shutdown s ctx1 w) = None \<longrightarrow>
      fst (simulatedExporter_Shutdown s ctx2 (snd (simulatedExporter_Shutdown s ctx1 w))) = None
      \<and> calls (snd (simulatedExporter_Shutdown s ctx2 (snd (simulatedExporter_Shutdown s ctx1 w))))
          = calls w)"
  by (simp add: spanExporterAdapter_Shutdown_def simulatedExporter_Shutdown_def)

text \<open>C6 on an adapter wrapping the accepting consumer and on a simulated exporter.\<close>

theorem Shutdown_idempotent_witness:
  "fst (spanExporterAdapter_Shutdown \<lparr>cexp = Some accepting_consumer\<rparr> Background empty_world) = None
   \<and> fst (spanExporterAdapter_Shutdown \<lparr>cexp = Some accepting_consumer\<rparr> (Derived 1)
            (snd (spanExporterAdapter_Shutdown \<lparr>cexp = Some accepting_consumer\<rparr> Background
                    empty_world))) = None
   \<and> \<not> list_ex is_Shutdown_call
         (calls (snd (spanExporterAdapter_Shutdown \<lparr>cexp = Some accepting_consumer\<rparr> (Derived 1)
            (snd (spanExporterAdapter_Shutdown \<lparr>cexp = Some accepting_consumer\<rparr> Background
                    empty_world)))))
   \<and> fst (simulatedExporter_Shutdown \<lparr>config = Some ''tcp://localhost:9000''\<rparr> Background empty_world) = None
   \<and> fst (simulatedExporter_Shutdown \<lparr>config = Some ''tcp://localhost:9000''\<rparr> (Derived 1)
            (snd (simulatedExporter_Shutdown \<lparr>config = Some ''tcp://localhost:9000''\<rparr> Background
                    empty_world))) = None
   \<and> \<not> list_ex is_Shutdown_call
         (calls (snd (simulatedExporter_Shutdown \<lparr>config = Some ''tcp://localhost:9000''\<rparr> (Derived 1)
            (snd (simulatedExporter_Shutdown \<lparr>config = Some ''tcp://localhost:9000''\<rparr> Background
                    empty_world)))))"
proof -
  have h1: "fst (spanExporterAdapter_Shutdown \<lparr>cexp = Some accepting_consumer\<rparr> Background empty_world) = None"
    by (simp add: spanExporterAdapter_Shutdown_def)
  have h2: "fst (simulatedExporter_Shutdown \<lparr>config = Some ''tcp://localhost:9000''\<rparr> Background empty_world) = None"
    by (simp add: simulatedExporter_Shutdown_def)
  show ?thesis
    using h1 h2
      Shutdown_idempotent [of "\<lparr>cexp = Some accepting_consumer\<rparr>" Background empty_world "Derived 1"
                              "\<lparr>config = Some ''tcp://localhost:9000''\<rparr>"]
    by (simp add: empty_world_def)
qed

text \<open>
  C7. The package-level function \<open>TracesExporter\<close> is a stub: for every Collector
  traces exporter \<open>e\<close> (nil or not) it returns nil, so it never produces a span exporter.
\<close>

theorem TracesExporter_returns_nil: "TracesExporter e = None"
  by (simp add: TracesExporter_def)

text \<open>
  C10. For every exporter factory \<open>f\<close> (nil or not) and every non-nil settings pointer
  \<open>p\<close>, \<open>NewFactory\<close> returns a Factory and no error, and the Factory holds a copy of the
  struct that \<open>p\<close> points to at that moment. Whatever the world \<open>w'\<close> is in which
  \<open>SpanExporter\<close> is called later on this Factory (in particular a world where the caller
  has overwritten the struct behind \<open>p\<close>), the settings given to \<open>CreateTracesExporter\<close>
  are the ones read at construction.
\<close>

theorem NewFactory_copies_settings:
  "NewFactory env f (Some p) w = Inr \<lparr>createCfg = heap w p, collFactory = f\<rparr>
   \<and> (\<forall>fac cf ctx cfg w'.
         NewFactory env f (Some p) w = Inr fac \<and> f = Some cf \<longrightarrow>
         map fst (created_with (calls (snd (SpanExporter fac ctx cfg w'))))
           = map fst (created_with (calls w')) @ [heap w p])"
  by (auto simp: NewFactory_def SpanExporter_created_with)

text \<open>
  C10 on a concrete memory: the Factory is built from the struct at address 3, the caller
  then overwrites that struct, and \<open>CreateTracesExporter\<close> still receives the first one.
\<close>

theorem NewFactory_copies_settings_witness:
  "NewFactory working_env (Some working_factory) (Some 3) (empty_world\<lparr>heap := (heap empty_world)(3 := demo_settings)\<rparr>)
     = Inr \<lparr>createCfg = demo_settings, collFactory = Some working_factory\<rparr>
   \<and> map fst (created_with (calls (snd (SpanExporter
                 \<lparr>createCfg = demo_settings, collFactory = Some working_factory\<rparr>
                 Background (Some ''tcp://ch:9000'')
                 (empty_world\<lparr>heap := (heap empty_world)(3 := zero_settings)\<rparr>)))))
       = [demo_settings]"
proof -
  let ?w = "empty_world\<lparr>heap := (heap empty_world)(3 := demo_settings)\<rparr>"
  let ?w' = "empty_world\<lparr>heap := (heap empty_world)(3 := zero_settings)\<rparr>"
  have a: "NewFactory working_env (Some working_factory) (Some 3) ?w
             = Inr \<lparr>createCfg = demo_settings, collFactory = Some working_factory\<rparr>"
    by (simp add: NewFactory_def)
  from NewFactory_copies_settings [of working_env "Some working_factory" 3 ?w]
  have "map fst (created_with (calls (snd (SpanExporter
                 \<lparr>createCfg = demo_settings, collFactory = Some working_factory\<rparr>
                 Background (Some ''tcp://ch:9000'') ?w'))))
          = map fst (created_with (calls ?w')) @ [heap ?w 3]"
    using a by blast
  then show ?thesis using a by (simp add: empty_world_def)
qed

subsection \<open>The span translator\<close>

text \<open>Facts about first occurrences and about the stable partition.\<close>

lemma remdups_snoc: "remdups (ys @ [x]) = filter (\<lambda>y. y \<noteq> x) (remdups ys) @ [x]"
  by (induction ys) auto

lemma first_occurrences_Nil: "first_occurrences [] = []"
  by (simp add: first_occurrences_def)

lemma first_occurrences_Cons:
  "first_occurrences (x # xs) = x # first_occurrences (filter (\<lambda>y. y \<noteq> x) xs)"
  by (simp add: first_occurrences_def remdups_snoc rev_filter remdups_filter)

lemma length_first_occurrences: "length (first_occurrences ks) = card (set ks)"
  by (simp add: first_occurrences_def length_remdups_card_conv)

lemma distinct_first_occurrences: "distinct (first_occurrences ks)"
  by (simp add: first_occurrences_def)

lemma group_by_keys: "map fst (group_by key xs) = first_occurrences (map key xs)"
  by (induction key xs rule: group_by.induct)
     (simp_all add: first_occurrences_Nil first_occurrences_Cons filter_map comp_def)

lemma set_first_occurrences: "set (first_occurrences ks) = set ks"
  by (simp add: first_occurrences_def)

lemma group_by_key_set: "fst ` set (group_by key xs) = key ` set xs"
proof -
  have "fst ` set (group_by key xs) = set (map fst (group_by key xs))" by simp
  also have "\<dots> = set (map key xs)" by (simp only: group_by_keys set_first_occurrences)
  finally show ?thesis by simp
qed

lemma group_by_members:
  "(k, g) \<in> set (group_by key xs) \<Longrightarrow> g = filter (\<lambda>x. key x = k) xs \<and> g \<noteq> []"
proof (induction key xs rule: group_by.induct)
  case (1 key)
  then show ?case by simp
next
  case (2 key x xs)
  show ?case
  proof (cases "k = key x")
    case True
    have "key x \<notin> fst ` set (group_by key (filter (\<lambda>y. key y \<noteq> key x) xs))"
      by (auto simp: group_by_key_set)
    with 2 True show ?thesis by (auto simp: image_iff)
  next
    case False
    with 2 have "(k, g) \<in> set (group_by key (filter (\<lambda>y. key y \<noteq> key x) xs))" by auto
    from 2(1) [OF this] False show ?thesis
      by (auto simp: conj_commute intro: filter_cong)
  qed
qed

lemma group_by_sizes: "sum_list (map (\<lambda>(k, g). length g) (group_by key xs)) = length xs"
proof (induction key xs rule: group_by.induct)
  case (1 key)
  then show ?case by simp
next
  case (2 key x xs)
  have "length (filter (\<lambda>y. key y = key x) xs) + length (filter (\<lambda>y. key y \<noteq> key x) xs) = length xs"
    by (rule sum_length_filter_compl)
  with 2 show ?case by simp
qed

lemma group_by_sizes_snd: "sum_list (map (\<lambda>p. length (snd p)) (group_by key xs)) = length xs"
  using group_by_sizes [of key xs] by (simp add: case_prod_unfold)

lemma translate_resources:
  "map fst (translate mem batch) = first_occurrences (map (resource_of mem) batch)"
proof -
  have "map fst (translate mem batch) = map fst (group_by (resource_of mem) batch)"
    by (simp add: translate_def comp_def case_prod_unfold)
  then show ?thesis by (simp only: group_by_keys)
qed

lemma translate_groups:
  assumes "(r, gs) \<in> set (translate mem batch)"
  shows "map fst gs = first_occurrences
            (map InstrumentationScope (filter (\<lambda>sp. resource_of mem sp = r) batch))"
    and "(s, ds) \<in> set gs \<Longrightarrow>
           ds \<noteq> [] \<and> ds = map SpanData (filter (\<lambda>sp. resource_of mem sp = r
                                                  \<and> InstrumentationScope sp = s) batch)"
proof -
  from assms obtain g where g: "(r, g) \<in> set (group_by (resource_of mem) batch)"
    and gs: "gs = map (\<lambda>(s, g'). (s, map SpanData g')) (group_by InstrumentationScope g)"
    by (auto simp: translate_def)
  from group_by_members [OF g]
  have geq: "g = filter (\<lambda>sp. resource_of mem sp = r) batch" by simp
  have "map fst gs = map fst (group_by InstrumentationScope g)"
    by (simp add: gs comp_def case_prod_unfold)
  then show "map fst gs = first_occurrences
            (map InstrumentationScope (filter (\<lambda>sp. resource_of mem sp = r) batch))"
    by (simp only: group_by_keys geq)
  assume "(s, ds) \<in> set gs"
  then obtain g' where g': "(s, g') \<in> set (group_by InstrumentationScope g)"
    and ds: "ds = map SpanData g'"
    by (auto simp: gs)
  from group_by_members [OF g']
  have "g' = filter (\<lambda>sp. InstrumentationScope sp = s) g" and "g' \<noteq> []" by blast+
  then show "ds \<noteq> [] \<and> ds = map SpanData (filter (\<lambda>sp. resource_of mem sp = r
                                                  \<and> InstrumentationScope sp = s) batch)"
    by (simp add: ds geq conj_commute)
qed

lemma translate_span_count: "span_count (translate mem batch) = length batch"
proof -
  have "span_count (translate mem batch)
          = sum_list (map (\<lambda>p. length (snd p)) (group_by (resource_of mem) batch))"
    by (simp add: span_count_def translate_def comp_def case_prod_unfold group_by_sizes_snd)
  then show ?thesis by (simp only: group_by_sizes_snd)
qed

lemma group_by_map:
  "group_by key (map f xs) = map (\<lambda>(k, g). (k, map f g)) (group_by (\<lambda>x. key (f x)) xs)"
  by (induction "\<lambda>x. key (f x)" xs rule: group_by.induct) (simp_all add: filter_map comp_def)

lemma translate_by_value:
  "translate mem batch =
     map (\<lambda>(r, g). (r, map (\<lambda>(s, g'). (s, map (\<lambda>v. snd (snd v)) g'))
                          (group_by (\<lambda>v. fst (snd v)) g)))
         (group_by fst (map (span_value mem) batch))"
proof -
  have outer: "group_by fst (map (span_value mem) batch)
                 = map (\<lambda>(r, g). (r, map (span_value mem) g)) (group_by (resource_of mem) batch)"
    using group_by_map [of fst "span_value mem" batch] by (simp add: span_value_def)
  have inner: "group_by (\<lambda>v. fst (snd v)) (map (span_value mem) g)
                 = map (\<lambda>(s, g'). (s, map (span_value mem) g')) (group_by InstrumentationScope g)"
    for g :: "'b Span list"
    using group_by_map [of "\<lambda>v. fst (snd v)" "span_value mem" g] by (simp add: span_value_def)
  have data: "(\<lambda>v. snd (snd v)) \<circ> span_value mem = SpanData"
    by (simp add: fun_eq_iff span_value_def)
  show ?thesis
    by (simp add: translate_def outer inner comp_def case_prod_unfold data [unfolded comp_def])
qed

lemma run1_translated:
  "translate run1_memory run1_batch
     = [(''A'', [(scope_X, [''span-1'', ''span-2''])]), (''B'', [(scope_Y, [''span-3''])])]"
  by (simp add: translate_def run1_batch_def run1_memory_def resource_of_def scope_X_def scope_Y_def)

text \<open>
  C8. Translation is deterministic: two batches that hold the same spans by value, in
  the same order, translate to the same \<open>TraceRecord\<close>, the order of the resource groups
  and of the scope groups included, wherever the Resource objects of either run lie in
  memory. (Stated for the translator modelled from the specification.)
\<close>

theorem translate_deterministic:
  "map (span_value mem1) batch1 = map (span_value mem2) batch2 \<Longrightarrow>
     translate mem1 batch1 = translate mem2 batch2"
  by (simp only: translate_by_value)

text \<open>C8 on the two runs of the scenario.\<close>

theorem translate_deterministic_witness:
  "map (span_value run1_memory) run1_batch = map (span_value run2_memory) run2_batch
   \<and> translate run1_memory run1_batch = translate run2_memory run2_batch"
proof -
  have h: "map (span_value run1_memory) run1_batch = map (span_value run2_memory) run2_batch"
    by (simp add: span_value_def resource_of_def run1_batch_def run2_batch_def
          run1_memory_def run2_memory_def)
  show ?thesis using h translate_deterministic [OF h] by simp
qed

text \<open>
  C9. For every span batch, with \<open>N\<close> the number of distinct Resource values in it: the
  translated \<open>TraceRecord\<close> has exactly \<open>N\<close> Resource groups, their Resources are the
  distinct Resource values in the order of their first occurrence in the batch (no two
  groups share a Resource value), the scope groups of a Resource group are the distinct
  scopes of the spans of that Resource in the order of their first occurrence, every scope group is not empty and holds exactly the
  spans of the batch with that Resource and that scope, in batch order, and the total
  number of spans is the length of the batch. This holds for every number \<open>M\<close> of
  distinct scopes, so in particular when \<open>M \<ge> N\<close>. (Stated for the translator modelled
  from the specification.)
\<close>

theorem translate_grouping:
  "length (translate mem batch) = card (resource_of mem ` set batch)
   \<and> map fst (translate mem batch) = first_occurrences (map (resource_of mem) batch)
   \<and> distinct (map fst (translate mem batch))
   \<and> (\<forall>(r, gs) \<in> set (translate mem batch).
         map fst gs = first_occurrences
            (map InstrumentationScope (filter (\<lambda>sp. resource_of mem sp = r) batch))
         \<and> distinct (map fst gs)
         \<and> (\<forall>(s, ds) \<in> set gs.
               ds \<noteq> [] \<and> ds = map SpanData (filter (\<lambda>sp. resource_of mem sp = r
                                                     \<and> InstrumentationScope sp = s) batch)))
   \<and> span_count (translate mem batch) = length batch"
proof -
  have "length (translate mem batch) = length (map fst (translate mem batch))" by simp
  also have "\<dots> = card (resource_of mem ` set batch)"
    by (simp only: translate_resources length_first_occurrences set_map)
  finally have n: "length (translate mem batch) = card (resource_of mem ` set batch)" .
  have d: "distinct (map fst (translate mem batch))"
    by (simp only: translate_resources distinct_first_occurrences)
  have g: "distinct (map fst gs)" if "(r, gs) \<in> set (translate mem batch)" for r gs
    using translate_groups(1) [OF that] by (simp only: distinct_first_occurrences)
  show ?thesis
    using n d g translate_resources [of mem batch] translate_span_count [of mem batch]
      translate_groups [of _ _ mem batch]
    by blast
qed

text \<open>C9 on the scenario of the specification: two Resource groups, A before B.\<close>

theorem translate_grouping_witness:
  "card (resource_of run1_memory ` set run1_batch) = 2
   \<and> length (translate run1_memory run1_batch) = 2
   \<and> map fst (translate run1_memory run1_batch) = [''A'', ''B'']
   \<and> (''A'', [(scope_X, [''span-1'', ''span-2''])]) \<in> set (translate run1_memory run1_batch)
   \<and> map SpanData (filter (\<lambda>sp. resource_of run1_memory sp = ''A'' \<and> InstrumentationScope sp = scope_X)
                      run1_batch) = [''span-1'', ''span-2'']
   \<and> span_count (translate run1_memory run1_batch) = 3"
proof -
  have c: "card (resource_of run1_memory ` set run1_batch) = 2"
    by (simp add: run1_batch_def run1_memory_def resource_of_def)
  have f: "first_occurrences (map (resource_of run1_memory) run1_batch) = [''A'', ''B'']"
    by (simp add: first_occurrences_def run1_batch_def run1_memory_def resource_of_def)
  have m: "(''A'', [(scope_X, [''span-1'', ''span-2''])]) \<in> set (translate run1_memory run1_batch)"
    by (simp add: run1_translated)
  have l: "length run1_batch = 3" by (simp add: run1_batch_def)
  from translate_grouping [of run1_memory run1_batch] m
  have d: "[''span-1'', ''span-2'']
           = map SpanData (filter (\<lambda>sp. resource_of run1_memory sp = ''A''
                                        \<and> InstrumentationScope sp = scope_X) run1_batch)"
    by fastforce
  show ?thesis
    using c f l m d translate_grouping [of run1_memory run1_batch] by simp
qed

end
